theory Spec2Isabelle
  imports Complex_Main
begin

section \<open>Infinity Bank: ledger posting, loan amortisation and card issuing\<close>

text \<open>
  A shallow embedding of the request handlers in \<^verbatim>\<open>routes/transaction.js\<close>,
  \<^verbatim>\<open>routes/loan.js\<close>, \<^verbatim>\<open>routes/card.js\<close> and of the pre-save hooks of the
  Card and Loan models.

  Conventions of the embedding:
  \<^item> a JavaScript \<^verbatim>\<open>Number\<close> is the real number it denotes, and a \<^verbatim>\<open>Number\<close> that the
    validators force to be an integer (the loan term) is a \<open>nat\<close>; infinities and
    \<^verbatim>\<open>NaN\<close> are not represented;
  \<^item> the functions of the JavaScript runtime and of the libraries that the handlers
    call, the arithmetic operators among them, are parameters of the model,
    collected in the record \<open>runtime\<close>; a theorem about a handler holds for every
    runtime; comparisons of two \<^verbatim>\<open>Number\<close>s are exact in the runtime and in the model;
  \<^item> a collection of the document store is a field of the state; a handler takes the
    state and returns its response together with the state it leaves behind, so
    that what was written before an early \<^verbatim>\<open>return\<close> stays visible;
  \<^item> every \<^verbatim>\<open>res.status(4xx)\<close> of a handler is a value of the type \<open>error\<close>;
  \<^item> the document identifier \<^verbatim>\<open>_id\<close> of a user is its key in the \<open>users\<close> map, the
    identifier of a transaction is its position in the \<open>transactions\<close> list (a new
    document is appended, so its identifier is fresh);
  \<^item> \<^verbatim>\<open>new Date()\<close> is a parameter \<open>now\<close>; the values drawn from
    \<^verbatim>\<open>Math.random()\<close> are a parameter as well;
  \<^item> verification of the signed token is library code and is not modelled; of the
    object-document mapper the model has what the handlers meet: the setters of a
    schema path (\<^verbatim>\<open>trim\<close>, the cast to \<^verbatim>\<open>Number\<close>) and, for the loan model, the
    validation that \<^verbatim>\<open>save\<close> runs before the pre-save hooks.
\<close>

subsection \<open>Responses\<close>

datatype error =
    Unauthorized          \<comment> \<open>401 \<^verbatim>\<open>Invalid or inactive user\<close>\<close>
  | ValidationFailed      \<comment> \<open>400 \<^verbatim>\<open>Validation failed\<close>\<close>
  | InsufficientBalance   \<comment> \<open>400 \<^verbatim>\<open>Insufficient balance\<close> (\<^verbatim>\<open>... for withdrawal\<close>)\<close>
  | NotFound              \<comment> \<open>404 \<^verbatim>\<open>Receiver not found\<close>, \<^verbatim>\<open>Transaction not found\<close>\<close>
  | AccessDenied          \<comment> \<open>403 \<^verbatim>\<open>Only sender can cancel transaction\<close>\<close>
  | NotPending            \<comment> \<open>400 \<^verbatim>\<open>Only pending transactions can be cancelled\<close>\<close>
  | DuplicateActiveLoan   \<comment> \<open>400 \<^verbatim>\<open>You already have an active loan application or loan\<close>\<close>
  | InternalError         \<comment> \<open>500 \<^verbatim>\<open>Internal server error ...\<close>, the \<^verbatim>\<open>catch\<close> of a handler\<close>

subsection \<open>The runtime\<close>

text \<open>
  What the handlers use of the JavaScript runtime and of the libraries:
  \<^item> \<open>String_trim\<close>: \<^verbatim>\<open>String.prototype.trim\<close>, the setter of a schema path declared
    \<^verbatim>\<open>trim: true\<close>;
  \<^item> \<open>isFloat\<close>: whether a string has the format that the validator \<^verbatim>\<open>isFloat\<close>
    accepts;
  \<^item> \<open>String_toNumber\<close>: the \<^verbatim>\<open>Number\<close> that a string converts to, \<open>None\<close> when that is
    not a finite number;
  \<^item> \<open>Number_toString\<close>: the string that a \<^verbatim>\<open>Number\<close> converts to;
  \<^item> \<open>num_add\<close>, \<open>num_sub\<close>, \<open>num_mul\<close>, \<open>num_div\<close>: the operators \<^verbatim>\<open>+\<close>, \<^verbatim>\<open>-\<close>, \<^verbatim>\<open>*\<close>
    and \<^verbatim>\<open>/\<close> on two \<^verbatim>\<open>Number\<close>s, which round their result to a double;
  \<^item> \<open>Math_pow\<close>: \<^verbatim>\<open>Math.pow\<close>.
\<close>

record runtime =
  String_trim :: "string \<Rightarrow> string"
  isFloat :: "string \<Rightarrow> bool"
  String_toNumber :: "string \<Rightarrow> real option"
  Number_toString :: "real \<Rightarrow> string"
  num_add :: "real \<Rightarrow> real \<Rightarrow> real"
  num_sub :: "real \<Rightarrow> real \<Rightarrow> real"
  num_mul :: "real \<Rightarrow> real \<Rightarrow> real"
  num_div :: "real \<Rightarrow> real \<Rightarrow> real"
  Math_pow :: "real \<Rightarrow> real \<Rightarrow> real"

text \<open>
  A numeric field of a request body arrives as a JSON number or as a JSON string:
  the validator \<^verbatim>\<open>isFloat\<close> accepts both and converts neither.
\<close>

datatype json_number = JNum real | JStr string

text \<open>The \<^verbatim>\<open>Number\<close> that an operand of \<^verbatim>\<open><\<close> or \<^verbatim>\<open>-\<close> is converted to.\<close>

definition toNumber :: "runtime \<Rightarrow> json_number \<Rightarrow> real option" where
  "toNumber rt a = (case a of JNum x \<Rightarrow> Some x | JStr s \<Rightarrow> String_toNumber rt s)"

text \<open>
  \<^verbatim>\<open>doc.path += a\<close> on a path of type \<^verbatim>\<open>Number\<close> holding \<open>x\<close>. With a \<^verbatim>\<open>Number\<close> the
  operator adds. With a string it concatenates, and the setter of the path casts the
  concatenation back to a \<^verbatim>\<open>Number\<close>; \<open>None\<close> when that cast fails, which leaves the
  document invalid, so that its \<^verbatim>\<open>save\<close> rejects. (A concatenation that denotes a
  number beyond the range of a double is cast to an infinity in the code; here it
  counts as a failed cast, infinities not being represented.)
\<close>

definition add_assign :: "runtime \<Rightarrow> real \<Rightarrow> json_number \<Rightarrow> real option" where
  "add_assign rt x a =
     (case a of
        JNum y \<Rightarrow> Some (num_add rt x y)
      | JStr s \<Rightarrow> String_toNumber rt (Number_toString rt x @ s))"

subsection \<open>Documents and the store\<close>

record user =
  accountBalance :: real
  isActive :: bool

datatype txn_type = Transfer | Deposit | Withdrawal | Payment

datatype txn_status = Pending | Completed | Failed | Cancelled

record transaction =
  sender :: nat
  receiver :: nat
  amount :: real
  type :: txn_type
  description :: "string option"
  status :: txn_status
  completedAt :: "nat option"

datatype loan_type = personal | home | business | education | vehicle

datatype loan_status = LoanPending | LoanApproved | LoanRejected | LoanActive | LoanClosed

text \<open>
  A loan document. \<^verbatim>\<open>monthlyPayment\<close> and \<^verbatim>\<open>totalAmount\<close> are undefined on a
  document built by \<^verbatim>\<open>new Loan({...})\<close> until something sets them.
\<close>

record loan =
  loan_user :: nat
  loanType :: loan_type
  loan_amount :: real
  interestRate :: real
  loan_term :: nat
  monthlyPayment :: "real option"
  totalAmount :: "real option"
  loan_status :: loan_status
  purpose :: "string option"
  remainingBalance :: real

record store =
  users :: "nat \<rightharpoonup> user"
  transactions :: "transaction list"
  loans :: "loan list"

text \<open>\<^verbatim>\<open>Model.findById\<close> on users and transactions.\<close>

definition User_findById :: "store \<Rightarrow> nat \<Rightarrow> user option" where
  "User_findById st i = users st i"

definition Transaction_findById :: "store \<Rightarrow> nat \<Rightarrow> transaction option" where
  "Transaction_findById st i =
     (if i < length (transactions st) then Some (transactions st ! i) else None)"

text \<open>
  \<^verbatim>\<open>doc.save()\<close>: the document held by the handler is written to the store under its
  identifier. The handler's copy of a user is a snapshot taken by \<^verbatim>\<open>findById\<close>; two
  snapshots of one stored user are two objects, and the later \<^verbatim>\<open>save\<close> wins.
\<close>

definition User_save :: "store \<Rightarrow> nat \<Rightarrow> user \<Rightarrow> store" where
  "User_save st i u = st\<lparr>users := (users st)(i \<mapsto> u)\<rparr>"

definition Transaction_insert :: "store \<Rightarrow> transaction \<Rightarrow> store" where
  "Transaction_insert st t = st\<lparr>transactions := transactions st @ [t]\<rparr>"

definition Transaction_save :: "store \<Rightarrow> nat \<Rightarrow> transaction \<Rightarrow> store" where
  "Transaction_save st i t = st\<lparr>transactions := (transactions st)[i := t]\<rparr>"

subsection \<open>The middleware \<^verbatim>\<open>authenticateToken\<close>\<close>

text \<open>
  The argument is \<^verbatim>\<open>decoded.userId\<close>, the identifier the verified token carries.
  The middleware loads the user and rejects a missing or inactive one.
\<close>

definition authenticateToken :: "store \<Rightarrow> nat \<Rightarrow> error + user" where
  "authenticateToken st userId =
     (case User_findById st userId of
        None \<Rightarrow> Inl Unauthorized
      | Some u \<Rightarrow> if \<not> isActive u then Inl Unauthorized else Inr u)"

subsection \<open>\<^verbatim>\<open>POST /create\<close>\<close>

record create_body =
  receiverId :: nat
  body_amount :: json_number
  body_type :: txn_type
  body_description :: "string option"

text \<open>
  The validators of the route: \<^verbatim>\<open>isFloat({ min: 0.01 })\<close> on the amount and
  \<^verbatim>\<open>isLength({ max: 200 })\<close> on the optional description. That the receiver is a
  well-formed identifier and the type one of the four tags holds by typing. A JSON
  number has the format by itself; a string must have it and denote a number from
  0.01. (A string whose value exceeds the range of a double passes the validator in
  the code; here it does not, its value not being represented.)
\<close>

definition create_validation :: "runtime \<Rightarrow> create_body \<Rightarrow> bool" where
  "create_validation rt b =
     ((case body_amount b of
         JNum x \<Rightarrow> 1 / 100 \<le> x
       | JStr s \<Rightarrow>
           isFloat rt s \<and>
           (case String_toNumber rt s of None \<Rightarrow> False | Some x \<Rightarrow> 1 / 100 \<le> x)) \<and>
      (case body_description b of None \<Rightarrow> True | Some d \<Rightarrow> length d \<le> 200))"

text \<open>The numeric value of the amount of a request that passes validation.\<close>

definition validated_amount :: "runtime \<Rightarrow> create_body \<Rightarrow> real option" where
  "validated_amount rt b =
     (if create_validation rt b then toNumber rt (body_amount b) else None)"

text \<open>
  The handler proper, with \<^verbatim>\<open>req.user\<close> the snapshot \<open>u\<close> of the user \<open>senderId\<close>.
  The branches are in the order of the source: validation, the balance check of a
  transfer, the receiver lookup, the first \<^verbatim>\<open>transaction.save()\<close> with status
  \<^verbatim>\<open>pending\<close>, then the dispatch on the type. No branch exists for \<^verbatim>\<open>payment\<close>.

  \<open>v\<close> is the amount as a \<^verbatim>\<open>Number\<close>: what \<^verbatim>\<open><\<close> and \<^verbatim>\<open>-=\<close> convert it to and what the
  Transaction schema casts it to (for a string that passes the validator, its
  \<^verbatim>\<open>parseFloat\<close> and these conversions agree). The schema trims the description.
  The two credits are \<^verbatim>\<open>+=\<close>, which does not convert a string. When a credit leaves
  a user document invalid, its \<^verbatim>\<open>save\<close> throws and the handler answers 500 with what
  was saved so far.
\<close>

definition create_handler ::
  "runtime \<Rightarrow> store \<Rightarrow> nat \<Rightarrow> nat \<Rightarrow> user \<Rightarrow> create_body \<Rightarrow> (error + transaction) \<times> store"
  where
  "create_handler rt st now senderId u b =
     (case validated_amount rt b of
        None \<Rightarrow> (Inl ValidationFailed, st)
      | Some v \<Rightarrow>
      if body_type b = Transfer \<and> accountBalance u < v
        then (Inl InsufficientBalance, st)
      else case User_findById st (receiverId b) of
        None \<Rightarrow> (Inl NotFound, st)
      | Some rcv \<Rightarrow>
          if \<not> isActive rcv then (Inl NotFound, st)
          else
            let t = \<lparr>sender = senderId, receiver = receiverId b, amount = v,
                     type = body_type b,
                     description = map_option (String_trim rt) (body_description b),
                     status = Pending, completedAt = None\<rparr>;
                tid = length (transactions st);
                st1 = Transaction_insert st t;
                done = t\<lparr>status := Completed, completedAt := Some now\<rparr>
            in case body_type b of
                 Transfer \<Rightarrow>
                   let st2 = User_save st1 senderId
                               (u\<lparr>accountBalance := num_sub rt (accountBalance u) v\<rparr>)
                   in (case add_assign rt (accountBalance rcv) (body_amount b) of
                         None \<Rightarrow> (Inl InternalError, st2)
                       | Some credited \<Rightarrow>
                           let st3 = User_save st2 (receiverId b)
                                       (rcv\<lparr>accountBalance := credited\<rparr>)
                           in (Inr done, Transaction_save st3 tid done))
               | Deposit \<Rightarrow>
                   (case add_assign rt (accountBalance u) (body_amount b) of
                      None \<Rightarrow> (Inl InternalError, st1)
                    | Some credited \<Rightarrow>
                        let st2 = User_save st1 senderId (u\<lparr>accountBalance := credited\<rparr>)
                        in (Inr done, Transaction_save st2 tid done))
               | Withdrawal \<Rightarrow>
                   if accountBalance u < v
                   then (Inl InsufficientBalance, st1)
                   else
                     let st2 = User_save st1 senderId
                                 (u\<lparr>accountBalance := num_sub rt (accountBalance u) v\<rparr>)
                     in (Inr done, Transaction_save st2 tid done)
               | Payment \<Rightarrow> (Inr t, st1))"

definition create ::
  "runtime \<Rightarrow> store \<Rightarrow> nat \<Rightarrow> nat \<Rightarrow> create_body \<Rightarrow> (error + transaction) \<times> store" where
  "create rt st now userId b =
     (case authenticateToken st userId of
        Inl e \<Rightarrow> (Inl e, st)
      | Inr u \<Rightarrow> create_handler rt st now userId u b)"

subsection \<open>\<^verbatim>\<open>PATCH /:id/cancel\<close>\<close>

definition cancel_handler :: "store \<Rightarrow> nat \<Rightarrow> nat \<Rightarrow> (error + transaction) \<times> store" where
  "cancel_handler st userId tid =
     (case Transaction_findById st tid of
        None \<Rightarrow> (Inl NotFound, st)
      | Some t \<Rightarrow>
          if sender t \<noteq> userId then (Inl AccessDenied, st)
          else if status t \<noteq> Pending then (Inl NotPending, st)
          else let t' = t\<lparr>status := Cancelled\<rparr>
               in (Inr t', Transaction_save st tid t'))"

definition cancel :: "store \<Rightarrow> nat \<Rightarrow> nat \<Rightarrow> (error + transaction) \<times> store" where
  "cancel st userId tid =
     (case authenticateToken st userId of
        Inl e \<Rightarrow> (Inl e, st)
      | Inr u \<Rightarrow> cancel_handler st userId tid)"

text \<open>
  The two routes are the only code that writes a transaction. A run of the ledger
  is a list of requests, executed one after the other.
\<close>

datatype request = Create nat nat create_body | Cancel nat nat

fun exec :: "runtime \<Rightarrow> store \<Rightarrow> request \<Rightarrow> store" where
  "exec rt st (Create now userId b) = snd (create rt st now userId b)"
| "exec rt st (Cancel userId tid) = snd (cancel st userId tid)"

definition run :: "runtime \<Rightarrow> store \<Rightarrow> request list \<Rightarrow> store" where
  "run rt st rs = foldl (exec rt) st rs"

definition status_of :: "store \<Rightarrow> nat \<Rightarrow> txn_status option" where
  "status_of st tid = map_option status (Transaction_findById st tid)"

definition balance_of :: "store \<Rightarrow> nat \<Rightarrow> real option" where
  "balance_of st i = map_option accountBalance (users st i)"

subsection \<open>The loan model: validation and the pre-save hook\<close>

text \<open>
  \<^verbatim>\<open>loanSchema.pre('save')\<close>. The flag stands for
  \<^verbatim>\<open>isModified('amount') || isModified('interestRate') || isModified('term')\<close>,
  which holds on a new document that sets these paths. The operators are those of
  the runtime, in the order in which the source applies them.
\<close>

definition Loan_pre_save :: "runtime \<Rightarrow> bool \<Rightarrow> loan \<Rightarrow> loan" where
  "Loan_pre_save rt modified l =
     (if modified then
        let monthlyRate = num_div rt (num_div rt (interestRate l) 100) 12;
            numberOfPayments = real (loan_term l);
            growth = Math_pow rt (num_add rt 1 monthlyRate) numberOfPayments;
            payment =
              (if monthlyRate > 0
               then num_div rt (num_mul rt (num_mul rt (loan_amount l) monthlyRate) growth)
                      (num_sub rt growth 1)
               else num_div rt (loan_amount l) numberOfPayments)
        in l\<lparr>monthlyPayment := Some payment,
             totalAmount := Some (num_mul rt payment numberOfPayments),
             remainingBalance := loan_amount l\<rparr>
      else l)"

text \<open>
  The validators of the schema: \<^verbatim>\<open>amount\<close> from 1000, \<^verbatim>\<open>interestRate\<close> from 0.1 to 25,
  \<^verbatim>\<open>term\<close> from 1 to 360, \<^verbatim>\<open>purpose\<close> of at most 200 characters, and
  \<^verbatim>\<open>monthlyPayment\<close> and \<^verbatim>\<open>totalAmount\<close> required.
\<close>

definition Loan_validate :: "loan \<Rightarrow> bool" where
  "Loan_validate l =
     (1000 \<le> loan_amount l \<and> 1 / 10 \<le> interestRate l \<and> interestRate l \<le> 25 \<and>
      1 \<le> loan_term l \<and> loan_term l \<le> 360 \<and>
      monthlyPayment l \<noteq> None \<and> totalAmount l \<noteq> None \<and>
      (case purpose l of None \<Rightarrow> True | Some p \<Rightarrow> length p \<le> 200))"

definition Loan_insert :: "store \<Rightarrow> loan \<Rightarrow> store" where
  "Loan_insert st l = st\<lparr>loans := loans st @ [l]\<rparr>"

text \<open>
  \<^verbatim>\<open>loan.save()\<close> of a new document: the mapper validates the document first and
  rejects an invalid one; only then the pre-save hooks run and the document is
  inserted. \<open>None\<close> is the rejection.
\<close>

definition Loan_save :: "runtime \<Rightarrow> store \<Rightarrow> loan \<Rightarrow> (loan \<times> store) option" where
  "Loan_save rt st l =
     (if \<not> Loan_validate l then None
      else let saved = Loan_pre_save rt True l in Some (saved, Loan_insert st saved))"

subsection \<open>\<^verbatim>\<open>POST /apply\<close> of the loan routes\<close>

text \<open>
  In the loan routes every operator applied to a numeric field of the body converts
  it (\<^verbatim>\<open>>=\<close>, \<^verbatim>\<open>*\<close>, \<^verbatim>\<open>/\<close>, \<^verbatim>\<open>-\<close>, \<^verbatim>\<open>Math.pow\<close>, the cast of the schema), so a field is
  given by the number it denotes, whether it came as a JSON number or as a string.
\<close>

record apply_body =
  body_loanType :: loan_type
  body_principal :: real
  body_term :: nat
  body_purpose :: "string option"

text \<open>
  The validators: \<^verbatim>\<open>isFloat({ min: 1000 })\<close>, \<^verbatim>\<open>isInt({ min: 1, max: 360 })\<close>,
  \<^verbatim>\<open>isLength({ max: 200 })\<close>; the loan type is one of the five tags by typing.
\<close>

definition apply_validation :: "apply_body \<Rightarrow> bool" where
  "apply_validation b =
     (1000 \<le> body_principal b \<and> 1 \<le> body_term b \<and> body_term b \<le> 360 \<and>
      (case body_purpose b of None \<Rightarrow> True | Some p \<Rightarrow> length p \<le> 200))"

text \<open>The \<^verbatim>\<open>switch (loanType)\<close> that sets \<^verbatim>\<open>interestRate\<close>.\<close>

definition apply_interestRate :: "loan_type \<Rightarrow> real \<Rightarrow> real" where
  "apply_interestRate ty a =
     (case ty of
        personal \<Rightarrow> if a \<ge> 50000 then 10.5 else 12.5
      | home \<Rightarrow> if a \<ge> 1000000 then 8.5 else 9.5
      | business \<Rightarrow> if a \<ge> 200000 then 11.5 else 13.5
      | education \<Rightarrow> 9.5
      | vehicle \<Rightarrow> if a \<ge> 500000 then 9.0 else 10.5)"

text \<open>
  \<^verbatim>\<open>Loan.findOne({ user, status: { $in: ['pending', 'approved', 'active'] } })\<close>.
\<close>

definition open_status :: "loan_status \<Rightarrow> bool" where
  "open_status s = (s = LoanPending \<or> s = LoanApproved \<or> s = LoanActive)"

definition Loan_findOne_open :: "store \<Rightarrow> nat \<Rightarrow> loan option" where
  "Loan_findOne_open st userId =
     find (\<lambda>l. loan_user l = userId \<and> open_status (loan_status l)) (loans st)"

text \<open>
  The handler builds the document without \<^verbatim>\<open>monthlyPayment\<close> and \<^verbatim>\<open>totalAmount\<close> and
  saves it; a rejected \<^verbatim>\<open>save\<close> throws, and the \<^verbatim>\<open>catch\<close> answers 500.
\<close>

definition apply_handler ::
  "runtime \<Rightarrow> store \<Rightarrow> nat \<Rightarrow> apply_body \<Rightarrow> (error + loan) \<times> store" where
  "apply_handler rt st userId b =
     (if \<not> apply_validation b then (Inl ValidationFailed, st)
      else
        let rate = apply_interestRate (body_loanType b) (body_principal b)
        in case Loan_findOne_open st userId of
             Some existingLoan \<Rightarrow> (Inl DuplicateActiveLoan, st)
           | None \<Rightarrow>
               let l = \<lparr>loan_user = userId, loanType = body_loanType b,
                        loan_amount = body_principal b, interestRate = rate,
                        loan_term = body_term b, monthlyPayment = None, totalAmount = None,
                        loan_status = LoanPending,
                        purpose = map_option (String_trim rt) (body_purpose b),
                        remainingBalance = 0\<rparr>
               in case Loan_save rt st l of
                    None \<Rightarrow> (Inl InternalError, st)
                  | Some (saved, st') \<Rightarrow> (Inr saved, st'))"

definition loan_apply ::
  "runtime \<Rightarrow> store \<Rightarrow> nat \<Rightarrow> apply_body \<Rightarrow> (error + loan) \<times> store" where
  "loan_apply rt st userId b =
     (case authenticateToken st userId of
        Inl e \<Rightarrow> (Inl e, st)
      | Inr u \<Rightarrow> apply_handler rt st userId b)"

definition open_loans :: "store \<Rightarrow> nat \<Rightarrow> loan list" where
  "open_loans st userId =
     filter (\<lambda>l. loan_user l = userId \<and> open_status (loan_status l)) (loans st)"

subsection \<open>\<^verbatim>\<open>POST /calculator\<close>\<close>

record calculator_body =
  calc_amount :: real
  calc_term :: nat
  calc_interestRate :: real

definition calculator_validation :: "calculator_body \<Rightarrow> bool" where
  "calculator_validation b =
     (1000 \<le> calc_amount b \<and> 1 \<le> calc_term b \<and> calc_term b \<le> 360 \<and>
      1 / 10 \<le> calc_interestRate b \<and> calc_interestRate b \<le> 25)"

text \<open>
  The three local values \<^verbatim>\<open>monthlyPayment\<close>, \<^verbatim>\<open>totalAmount\<close> and
  \<^verbatim>\<open>totalInterest\<close> of the handler, before the response rounds them.
\<close>

definition calculator_amounts :: "runtime \<Rightarrow> real \<Rightarrow> nat \<Rightarrow> real \<Rightarrow> real \<times> real \<times> real" where
  "calculator_amounts rt a n rate =
     (let monthlyRate = num_div rt (num_div rt rate 100) 12;
          numberOfPayments = real n;
          growth = Math_pow rt (num_add rt 1 monthlyRate) numberOfPayments;
          payment =
            (if monthlyRate > 0
             then num_div rt (num_mul rt (num_mul rt a monthlyRate) growth)
                    (num_sub rt growth 1)
             else num_div rt a numberOfPayments);
          totalA = num_mul rt payment numberOfPayments;
          totalI = num_sub rt totalA a
      in (payment, totalA, totalI))"

text \<open>
  \<^verbatim>\<open>Math.round\<close> gives the nearest integer, a half upwards; on a double that is
  exact. The response holds \<^verbatim>\<open>Math.round(x * 100) / 100\<close>.
\<close>

definition Math_round :: "real \<Rightarrow> int" where
  "Math_round x = \<lfloor>x + 1 / 2\<rfloor>"

definition round2 :: "runtime \<Rightarrow> real \<Rightarrow> real" where
  "round2 rt x = num_div rt (real_of_int (Math_round (num_mul rt x 100))) 100"

record calculation =
  res_loanAmount :: real
  res_term :: nat
  res_interestRate :: real
  res_monthlyPayment :: real
  res_totalAmount :: real
  res_totalInterest :: real

definition calculator :: "runtime \<Rightarrow> calculator_body \<Rightarrow> error + calculation" where
  "calculator rt b =
     (if \<not> calculator_validation b then Inl ValidationFailed
      else
        case calculator_amounts rt (calc_amount b) (calc_term b) (calc_interestRate b) of
          (payment, totalA, totalI) \<Rightarrow>
            Inr \<lparr>res_loanAmount = calc_amount b, res_term = calc_term b,
                 res_interestRate = calc_interestRate b,
                 res_monthlyPayment = round2 rt payment,
                 res_totalAmount = round2 rt totalA,
                 res_totalInterest = round2 rt totalI\<rparr>)"


subsection \<open>\<^verbatim>\<open>POST /apply\<close> of the card routes: fee and rewards\<close>

datatype card_type = Credit | Debit

datatype card_category = Classic | Gold | Platinum | Signature | Infinite

datatype rewards = Cashback | Points | Miles | NoRewards

text \<open>The \<^verbatim>\<open>switch (cardCategory)\<close> that sets \<^verbatim>\<open>annualFee\<close>.\<close>

definition apply_annualFee :: "card_type \<Rightarrow> card_category \<Rightarrow> nat" where
  "apply_annualFee cardType cardCategory =
     (case cardCategory of
        Classic \<Rightarrow> if cardType = Credit then 500 else 0
      | Gold \<Rightarrow> if cardType = Credit then 1000 else 250
      | Platinum \<Rightarrow> if cardType = Credit then 2500 else 500
      | Signature \<Rightarrow> if cardType = Credit then 5000 else 1000
      | Infinite \<Rightarrow> if cardType = Credit then 10000 else 2000)"

text \<open>
  \<^verbatim>\<open>rewardsProgram\<close> starts as \<^verbatim>\<open>'none'\<close>; the inner switch has no case for
  \<^verbatim>\<open>classic\<close>, which keeps the initial value.
\<close>

definition apply_rewardsProgram :: "card_type \<Rightarrow> card_category \<Rightarrow> rewards" where
  "apply_rewardsProgram cardType cardCategory =
     (if cardType = Credit then
        (case cardCategory of
           Gold \<Rightarrow> Cashback
         | Platinum \<Rightarrow> Points
         | Signature \<Rightarrow> Miles
         | Infinite \<Rightarrow> Miles
         | Classic \<Rightarrow> NoRewards)
      else NoRewards)"

subsection \<open>The card model: the pre-save hook that generates the number\<close>

datatype card_network = Visa | Mastercard | RuPay | AmericanExpress

record card =
  cardNetwork :: card_network
  cardNumber :: "string option"

text \<open>
  A decimal digit as the one-character string that \<^verbatim>\<open>cardNumber += d\<close> appends, and
  \<^verbatim>\<open>parseInt\<close> of one digit character.
\<close>

definition digit_string :: "nat \<Rightarrow> string" where
  "digit_string d = [char_of (48 + d)]"

definition parseInt :: "char \<Rightarrow> nat" where
  "parseInt c = of_char c - 48"

definition network_prefix :: "card_network \<Rightarrow> string" where
  "network_prefix n =
     (if n = Visa then ''4'' else if n = Mastercard then ''5''
      else if n = RuPay then ''6'' else ''3'')"

text \<open>
  The first loop, \<^verbatim>\<open>for (let i = 0; i < 15; i++)\<close>; \<open>rnd i\<close> is the value of
  \<^verbatim>\<open>Math.floor(Math.random() * 10)\<close> in round \<open>i\<close>, a digit from 0 to 9.
\<close>

definition append_random :: "(nat \<Rightarrow> nat) \<Rightarrow> string \<Rightarrow> string" where
  "append_random rnd pre = fold (\<lambda>i cardNumber. cardNumber @ digit_string (rnd i)) [0..<15] pre"

text \<open>
  The second loop runs \<open>i\<close> from the last index down to 0, that is over the reversed
  string, with \<open>acc\<close> the accumulator \<^verbatim>\<open>sum\<close> and the flag \<^verbatim>\<open>isEven\<close>.
\<close>

fun luhn_loop :: "string \<Rightarrow> nat \<Rightarrow> bool \<Rightarrow> nat" where
  "luhn_loop [] acc isEven = acc"
| "luhn_loop (c # cs) acc isEven =
     (let digit = parseInt c;
          digit = (if isEven
                   then (let doubled = digit * 2 in if doubled > 9 then doubled - 9 else doubled)
                   else digit)
      in luhn_loop cs (acc + digit) (\<not> isEven))"

definition generateCardNumber :: "card_network \<Rightarrow> (nat \<Rightarrow> nat) \<Rightarrow> string" where
  "generateCardNumber n rnd =
     (let cardNumber = append_random rnd (network_prefix n);
          acc = luhn_loop (rev cardNumber) 0 False;
          checkDigit = (10 - (acc mod 10)) mod 10
      in cardNumber @ digit_string checkDigit)"

text \<open>\<^verbatim>\<open>!this.cardNumber\<close> holds of an undefined and of an empty string.\<close>

definition Card_pre_save :: "(nat \<Rightarrow> nat) \<Rightarrow> card \<Rightarrow> card" where
  "Card_pre_save rnd c =
     (if cardNumber c = None \<or> cardNumber c = Some []
      then c\<lparr>cardNumber := Some (generateCardNumber (cardNetwork c) rnd)\<rparr>
      else c)"

text \<open>
  Luhn validation as the specification words it, on a list of digits: from the
  rightmost digit leftwards every second digit is doubled, 9 is subtracted from a
  double above 9, and the sum must be a multiple of 10. The check digit of a payload
  is computed with the rightmost payload digit doubled.
\<close>

fun luhn_sum_spec :: "nat list \<Rightarrow> bool \<Rightarrow> nat" where
  "luhn_sum_spec [] dbl = 0"
| "luhn_sum_spec (d # ds) dbl =
     (if dbl then (if 2 * d > 9 then 2 * d - 9 else 2 * d) else d) + luhn_sum_spec ds (\<not> dbl)"

definition luhn_check_digit_spec :: "nat list \<Rightarrow> nat" where
  "luhn_check_digit_spec payload = (10 - luhn_sum_spec (rev payload) True mod 10) mod 10"

definition luhn_valid_spec :: "nat list \<Rightarrow> bool" where
  "luhn_valid_spec ds = (luhn_sum_spec (rev ds) False mod 10 = 0)"

definition digits_of :: "string \<Rightarrow> nat list" where
  "digits_of s = map parseInt s"

subsection \<open>Derived notions\<close>

definition active_user :: "store \<Rightarrow> nat \<Rightarrow> bool" where
  "active_user st i = (case users st i of None \<Rightarrow> False | Some u \<Rightarrow> isActive u)"

text \<open>
  The document that the first \<^verbatim>\<open>transaction.save()\<close> of \<^verbatim>\<open>/create\<close> writes for an
  amount of value \<open>v\<close>, and the document as a completing branch saves it again.
\<close>

definition pending_txn :: "runtime \<Rightarrow> nat \<Rightarrow> real \<Rightarrow> create_body \<Rightarrow> transaction" where
  "pending_txn rt senderId v b =
     \<lparr>sender = senderId, receiver = receiverId b, amount = v,
      type = body_type b, description = map_option (String_trim rt) (body_description b),
      status = Pending, completedAt = None\<rparr>"

definition completed_txn :: "runtime \<Rightarrow> nat \<Rightarrow> nat \<Rightarrow> real \<Rightarrow> create_body \<Rightarrow> transaction" where
  "completed_txn rt now senderId v b =
     (pending_txn rt senderId v b)\<lparr>status := Completed, completedAt := Some now\<rparr>"

text \<open>
  A runtime whose four operators and \<^verbatim>\<open>Math.pow\<close> are accurate to twelve digits
  wherever the exact result lies between a thousandth and a million in absolute
  value. The arithmetic of IEEE doubles is accurate to almost sixteen digits there,
  and exact arithmetic is accurate outright.
\<close>

definition in_range :: "real \<Rightarrow> bool" where
  "in_range x = (1 / 10 ^ 3 \<le> \<bar>x\<bar> \<and> \<bar>x\<bar> \<le> 10 ^ 6)"

definition accurate :: "runtime \<Rightarrow> bool" where
  "accurate rt =
     ((\<forall>x y. in_range (x + y) \<longrightarrow> \<bar>num_add rt x y - (x + y)\<bar> \<le> \<bar>x + y\<bar> / 10 ^ 12) \<and>
      (\<forall>x y. in_range (x - y) \<longrightarrow> \<bar>num_sub rt x y - (x - y)\<bar> \<le> \<bar>x - y\<bar> / 10 ^ 12) \<and>
      (\<forall>x y. in_range (x * y) \<longrightarrow> \<bar>num_mul rt x y - x * y\<bar> \<le> \<bar>x * y\<bar> / 10 ^ 12) \<and>
      (\<forall>x y. in_range (x / y) \<longrightarrow> \<bar>num_div rt x y - x / y\<bar> \<le> \<bar>x / y\<bar> / 10 ^ 12) \<and>
      (\<forall>x n. in_range (x ^ n) \<longrightarrow> \<bar>Math_pow rt x (real n) - x ^ n\<bar> \<le> \<bar>x ^ n\<bar> / 10 ^ 12))"

subsection \<open>A concrete runtime, stores and requests\<close>

text \<open>
  The examples run on \<open>runtime0\<close>: arithmetic is exact, and strings and \<^verbatim>\<open>Number\<close>s
  convert into each other as the JavaScript runtime converts non-negative integers
  and strings of decimal digits, which is all that the examples convert.
\<close>

definition is_space :: "char \<Rightarrow> bool" where
  "is_space c = (c \<in> set [CHR '' '', CHR 0x09, CHR 0x0A, CHR 0x0B, CHR 0x0C, CHR 0x0D])"

definition is_digit :: "char \<Rightarrow> bool" where
  "is_digit c = (48 \<le> (of_char c :: nat) \<and> (of_char c :: nat) \<le> 57)"

definition digits_value :: "string \<Rightarrow> nat" where
  "digits_value s = foldl (\<lambda>n c. 10 * n + (of_char c - 48)) 0 s"

function decimal :: "nat \<Rightarrow> string" where
  "decimal n =
     (if n < 10 then [''0123456789'' ! n]
      else decimal (n div 10) @ [''0123456789'' ! (n mod 10)])"
  by pat_completeness auto
termination
  by (relation "measure id") auto

definition runtime0 :: runtime where
  "runtime0 =
     \<lparr>String_trim = (\<lambda>s. rev (dropWhile is_space (rev (dropWhile is_space s)))),
      isFloat = (\<lambda>s. s \<noteq> [] \<and> list_all is_digit s),
      String_toNumber =
        (\<lambda>s. if s \<noteq> [] \<and> list_all is_digit s then Some (real (digits_value s)) else None),
      Number_toString = (\<lambda>x. decimal (nat \<lfloor>x\<rfloor>)),
      num_add = (+), num_sub = (-), num_mul = (*), num_div = (/),
      Math_pow = (\<lambda>x y. x ^ nat \<lfloor>y\<rfloor>)\<rparr>"

text \<open>
  User 1 holds 100, user 2 holds 5, both active; user 3 does not exist. User 2 has a
  pending loan.
\<close>

definition store0 :: store where
  "store0 =
     \<lparr>users = [1 \<mapsto> \<lparr>accountBalance = 100, isActive = True\<rparr>,
               2 \<mapsto> \<lparr>accountBalance = 5, isActive = True\<rparr>],
      transactions = [],
      loans = [\<lparr>loan_user = 2, loanType = personal, loan_amount = 2000, interestRate = 12.5,
                loan_term = 12, monthlyPayment = None, totalAmount = None,
                loan_status = LoanPending, purpose = None, remainingBalance = 2000\<rparr>]\<rparr>"

definition body0 :: "nat \<Rightarrow> json_number \<Rightarrow> txn_type \<Rightarrow> create_body" where
  "body0 r a ty =
     \<lparr>receiverId = r, body_amount = a, body_type = ty, body_description = None\<rparr>"

text \<open>
  The store after user 1 has made a payment of 40 and a transfer of 10 to user 2:
  transaction 0 is pending, transaction 1 is completed.
\<close>

definition store1 :: store where
  "store1 =
     \<lparr>users = [1 \<mapsto> \<lparr>accountBalance = 90, isActive = True\<rparr>,
               2 \<mapsto> \<lparr>accountBalance = 15, isActive = True\<rparr>],
      transactions = [pending_txn runtime0 1 40 (body0 2 (JNum 40) Payment),
                      completed_txn runtime0 7 1 10 (body0 2 (JNum 10) Transfer)],
      loans = []\<rparr>"

text \<open>A loan application for 50000 over 12 months, and a calculator request.\<close>

definition apply_body0 :: apply_body where
  "apply_body0 =
     \<lparr>body_loanType = personal, body_principal = 50000, body_term = 12, body_purpose = None\<rparr>"

definition calculator_body0 :: calculator_body where
  "calculator_body0 = \<lparr>calc_amount = 1000, calc_term = 3, calc_interestRate = 12\<rparr>"

section \<open>Properties of the transaction routes\<close>

lemmas create_unfold =
  create_def create_handler_def authenticateToken_def User_findById_def
  validated_amount_def create_validation_def toNumber_def add_assign_def
  User_save_def Transaction_insert_def Transaction_save_def
  pending_txn_def completed_txn_def Let_def

lemmas cancel_unfold =
  cancel_def cancel_handler_def authenticateToken_def User_findById_def
  Transaction_findById_def Transaction_save_def Let_def

lemmas runtime0_unfold = runtime0_def is_digit_def is_space_def digits_value_def

lemma store0_users:
  "users store0 1 = Some \<lparr>accountBalance = 100, isActive = True\<rparr>"
  "users store0 2 = Some \<lparr>accountBalance = 5, isActive = True\<rparr>"
  "users store0 3 = None"
  by (simp_all add: store0_def)

lemma body0_valid: "1 / 100 \<le> x \<Longrightarrow> create_validation rt (body0 r (JNum x) ty)"
  by (simp add: create_validation_def body0_def)

lemma body0_sel:
  "receiverId (body0 r a ty) = r" "body_amount (body0 r a ty) = a"
  "body_type (body0 r a ty) = ty" "body_description (body0 r a ty) = None"
  by (simp_all add: body0_def)

text \<open>A request that passes validation has an amount with a numeric value.\<close>

lemma validated_amount_Some:
  "validated_amount rt b = Some v \<longleftrightarrow>
     create_validation rt b \<and> toNumber rt (body_amount b) = Some v"
  by (simp add: validated_amount_def)


subsection \<open>Transfers\<close>

text \<open>
  Claim C1, as amended. A transfer request of an authenticated user that passes
  validation with its amount sent as a JSON number, names as receiver an existing,
  active user other than the sender, and asks for no more than the sender's balance
  succeeds: the response is the transaction with status \<^verbatim>\<open>completed\<close> and
  \<^verbatim>\<open>completedAt\<close> the time of the operation, that record is stored, the sender's
  balance has gone down by the amount (to 0 when the balance equals the amount), the
  receiver's balance has gone up by the amount, and nothing else has changed. The
  difference and the sum are those of the runtime's \<^verbatim>\<open>-\<close> and \<^verbatim>\<open>+\<close>; the balance is 0
  in the case of equality when the runtime subtracts a \<^verbatim>\<open>Number\<close> from itself to 0, as
  the arithmetic of doubles does.
\<close>

theorem transfer_posts:
  assumes "users st s = Some u" and "isActive u"
    and "users st (receiverId b) = Some rcv" and "isActive rcv" and "receiverId b \<noteq> s"
    and "create_validation rt b" and "body_type b = Transfer"
    and "body_amount b = JNum x" and "x \<le> accountBalance u"
  shows "create rt st now s b
           = (Inr (completed_txn rt now s x b),
              st\<lparr>users := (users st)
                     (s \<mapsto> u\<lparr>accountBalance := num_sub rt (accountBalance u) x\<rparr>,
                      receiverId b \<mapsto>
                        rcv\<lparr>accountBalance := num_add rt (accountBalance rcv) x\<rparr>),
                 transactions := transactions st @ [completed_txn rt now s x b]\<rparr>)
       \<and> status (completed_txn rt now s x b) = Completed
       \<and> completedAt (completed_txn rt now s x b) = Some now
       \<and> amount (completed_txn rt now s x b) = x
       \<and> balance_of (snd (create rt st now s b)) s = Some (num_sub rt (accountBalance u) x)
       \<and> balance_of (snd (create rt st now s b)) (receiverId b)
           = Some (num_add rt (accountBalance rcv) x)
       \<and> (accountBalance u = x \<and> num_sub rt x x = 0 \<longrightarrow>
            balance_of (snd (create rt st now s b)) s = Some 0)"
  using assms by (simp add: create_unfold balance_of_def)

text \<open>
  The witness is the case of equality: user 1 holds 100 and sends 100 to user 2.
\<close>

theorem transfer_posts_witness:
  "fst (create runtime0 store0 7 1 (body0 2 (JNum 100) Transfer))
     = Inr (completed_txn runtime0 7 1 100 (body0 2 (JNum 100) Transfer))
   \<and> balance_of (snd (create runtime0 store0 7 1 (body0 2 (JNum 100) Transfer))) 1 = Some 0
   \<and> balance_of (snd (create runtime0 store0 7 1 (body0 2 (JNum 100) Transfer))) 2 = Some 105"
proof -
  have v: "create_validation runtime0 (body0 2 (JNum 100) Transfer)"
    by (rule body0_valid) simp
  have r: "users store0 (receiverId (body0 2 (JNum 100) Transfer))
             = Some \<lparr>accountBalance = 5, isActive = True\<rparr>"
    by (simp add: body0_sel store0_users)
  from transfer_posts [OF store0_users(1) _ r _ _ v, of 100 7] show ?thesis
    by (simp add: body0_sel balance_of_def runtime0_def)
qed

text \<open>
  Three requests on which the claim as first stated fails, each with a balance equal
  to the amount. A transfer to the unknown user 3 is answered
  \<^verbatim>\<open>404 Receiver not found\<close> and changes nothing. A transfer of user 1 to
  themselves is answered with a completed transaction, and the stored balance is
  then 200: the handler holds two snapshots of the one user and the write of the
  credited snapshot comes last. A transfer to user 2 whose amount is the string
  \<^verbatim>\<open>"100"\<close> passes validation and completes, and the balance of user 2 goes from 5 to
  5100.
\<close>

theorem transfer_counterexample:
  "balance_of store0 1 = Some 100
   \<and> create runtime0 store0 7 1 (body0 3 (JNum 100) Transfer) = (Inl NotFound, store0)
   \<and> fst (create runtime0 store0 7 1 (body0 1 (JNum 100) Transfer))
       = Inr (completed_txn runtime0 7 1 100 (body0 1 (JNum 100) Transfer))
   \<and> balance_of (snd (create runtime0 store0 7 1 (body0 1 (JNum 100) Transfer))) 1 = Some 200
   \<and> create_validation runtime0 (body0 2 (JStr ''100'') Transfer)
   \<and> fst (create runtime0 store0 7 1 (body0 2 (JStr ''100'') Transfer))
       = Inr (completed_txn runtime0 7 1 100 (body0 2 (JStr ''100'') Transfer))
   \<and> balance_of (snd (create runtime0 store0 7 1 (body0 2 (JStr ''100'') Transfer))) 1 = Some 0
   \<and> balance_of (snd (create runtime0 store0 7 1 (body0 2 (JStr ''100'') Transfer))) 2
       = Some 5100"
  by (simp add: create_unfold balance_of_def store0_def body0_def runtime0_unfold)

subsection \<open>Withdrawals\<close>

text \<open>
  Claim C4, as amended. A withdrawal request of an authenticated user that passes
  validation and asks for strictly more than the user's balance fails, and no
  account balance changes. The failure is \<^verbatim>\<open>InsufficientBalance\<close> when the receiver
  identifier of the request names an existing, active user; otherwise the receiver
  lookup, which comes first, fails with \<^verbatim>\<open>NotFound\<close>. (The amount may be a JSON
  number or a string; \<open>v\<close> is its value.)
\<close>

theorem withdrawal_insufficient:
  assumes "users st s = Some u" and "isActive u"
    and "create_validation rt b" and "body_type b = Withdrawal"
    and "toNumber rt (body_amount b) = Some v" and "accountBalance u < v"
  shows "fst (create rt st now s b)
           = (if active_user st (receiverId b) then Inl InsufficientBalance else Inl NotFound)
       \<and> users (snd (create rt st now s b)) = users st"
  using assms
  by (simp add: create_def create_handler_def authenticateToken_def User_findById_def
      validated_amount_def Transaction_insert_def Let_def active_user_def
      split: option.splits)

theorem withdrawal_insufficient_witness:
  "fst (create runtime0 store0 7 1 (body0 2 (JNum 500) Withdrawal)) = Inl InsufficientBalance
   \<and> users (snd (create runtime0 store0 7 1 (body0 2 (JNum 500) Withdrawal))) = users store0"
proof -
  have v: "create_validation runtime0 (body0 2 (JNum 500) Withdrawal)"
    by (rule body0_valid) simp
  have a: "active_user store0 2"
    by (simp add: active_user_def store0_users)
  from withdrawal_insufficient [OF store0_users(1) _ v, of 500 7] a show ?thesis
    by (simp add: body0_sel toNumber_def)
qed

text \<open>
  User 1 holds 100 and asks to withdraw 500 with the unknown user 3 as receiver: the
  answer is \<^verbatim>\<open>NotFound\<close>, not \<^verbatim>\<open>InsufficientBalance\<close>.
\<close>

theorem withdrawal_counterexample:
  "balance_of store0 1 = Some 100
   \<and> body_amount (body0 3 (JNum 500) Withdrawal) = JNum 500
   \<and> fst (create runtime0 store0 7 1 (body0 3 (JNum 500) Withdrawal)) = Inl NotFound
   \<and> fst (create runtime0 store0 7 1 (body0 3 (JNum 500) Withdrawal))
       \<noteq> Inl InsufficientBalance"
  by (simp add: create_unfold balance_of_def store0_def body0_def)

subsection \<open>Payments\<close>

text \<open>
  Claim C6, as amended. A payment is not processed as a transfer. A payment request
  of an authenticated user that passes validation and names an existing, active
  receiver is stored and answered as first saved, with status \<^verbatim>\<open>pending\<close> and no
  \<^verbatim>\<open>completedAt\<close>; no balance is checked and no user document changes. The same
  request with the tag \<^verbatim>\<open>transfer\<close>, with its amount a JSON number within the
  sender's balance and its receiver another user, debits the sender by the amount,
  credits the receiver by the amount (with the runtime's \<^verbatim>\<open>-\<close> and \<^verbatim>\<open>+\<close>) and stores
  the transaction as \<^verbatim>\<open>completed\<close>.
\<close>

theorem payment_only_records:
  assumes "users st s = Some u" and "isActive u"
    and "users st (receiverId b) = Some rcv" and "isActive rcv"
    and "create_validation rt b" and "body_type b = Payment"
    and "toNumber rt (body_amount b) = Some v"
  shows "create rt st now s b
           = (Inr (pending_txn rt s v b),
              st\<lparr>transactions := transactions st @ [pending_txn rt s v b]\<rparr>)
       \<and> status (pending_txn rt s v b) = Pending
       \<and> completedAt (pending_txn rt s v b) = None
       \<and> users (snd (create rt st now s b)) = users st
       \<and> (receiverId b \<noteq> s \<and> body_amount b = JNum v \<and> v \<le> accountBalance u \<longrightarrow>
            create rt st now s (b\<lparr>body_type := Transfer\<rparr>)
              = (Inr ((pending_txn rt s v b)\<lparr>type := Transfer, status := Completed,
                                            completedAt := Some now\<rparr>),
                 st\<lparr>users := (users st)
                        (s \<mapsto> u\<lparr>accountBalance := num_sub rt (accountBalance u) v\<rparr>,
                         receiverId b \<mapsto>
                           rcv\<lparr>accountBalance := num_add rt (accountBalance rcv) v\<rparr>),
                    transactions := transactions st @
                      [(pending_txn rt s v b)\<lparr>type := Transfer, status := Completed,
                                               completedAt := Some now\<rparr>]\<rparr>))"
  using assms by (auto simp add: create_unfold)

theorem payment_only_records_witness:
  "create runtime0 store0 7 1 (body0 2 (JNum 40) Payment)
     = (Inr (pending_txn runtime0 1 40 (body0 2 (JNum 40) Payment)),
        store0\<lparr>transactions := [pending_txn runtime0 1 40 (body0 2 (JNum 40) Payment)]\<rparr>)
   \<and> balance_of (snd (create runtime0 store0 7 1 (body0 2 (JNum 40) Payment))) 1 = Some 100
   \<and> balance_of (snd (create runtime0 store0 7 1 (body0 2 (JNum 40) Payment))) 2 = Some 5
   \<and> balance_of
        (snd (create runtime0 store0 7 1 ((body0 2 (JNum 40) Payment)\<lparr>body_type := Transfer\<rparr>))) 1
       = Some 60
   \<and> balance_of
        (snd (create runtime0 store0 7 1 ((body0 2 (JNum 40) Payment)\<lparr>body_type := Transfer\<rparr>))) 2
       = Some 45"
proof -
  let ?b = "body0 2 (JNum 40) Payment"
  have v: "create_validation runtime0 ?b"
    by (rule body0_valid) simp
  have r: "users store0 (receiverId ?b) = Some \<lparr>accountBalance = 5, isActive = True\<rparr>"
    by (simp add: body0_sel store0_users)
  have n: "toNumber runtime0 (body_amount ?b) = Some 40"
    by (simp add: body0_sel toNumber_def)
  have e: "transactions store0 = []"
    by (simp add: store0_def)
  note p = payment_only_records [OF store0_users(1) _ r _ v _ n, of 7]
  from p e have c: "create runtime0 store0 7 1 ?b
      = (Inr (pending_txn runtime0 1 40 ?b),
         store0\<lparr>transactions := [pending_txn runtime0 1 40 ?b]\<rparr>)"
    by (simp add: body0_sel)
  from p have t: "snd (create runtime0 store0 7 1 (?b\<lparr>body_type := Transfer\<rparr>))
      = store0\<lparr>users := (users store0)
                 (1 \<mapsto> \<lparr>accountBalance = 100 - 40, isActive = True\<rparr>,
                  2 \<mapsto> \<lparr>accountBalance = 5 + 40, isActive = True\<rparr>),
               transactions := transactions store0 @
                 [(pending_txn runtime0 1 40 ?b)\<lparr>type := Transfer, status := Completed,
                                                  completedAt := Some 7\<rparr>]\<rparr>"
    by (simp add: body0_sel runtime0_def)
  have "balance_of (snd (create runtime0 store0 7 1 ?b)) 1 = Some 100"
    "balance_of (snd (create runtime0 store0 7 1 ?b)) 2 = Some 5"
    unfolding c by (simp_all add: balance_of_def store0_def)
  moreover have "balance_of (snd (create runtime0 store0 7 1 (?b\<lparr>body_type := Transfer\<rparr>))) 1 = Some 60"
    "balance_of (snd (create runtime0 store0 7 1 (?b\<lparr>body_type := Transfer\<rparr>))) 2 = Some 45"
    unfolding t by (simp_all add: balance_of_def)
  ultimately show ?thesis
    using c by simp
qed

text \<open>
  User 1 (balance 100) sends 40 to user 2 (balance 5), once as a transfer and once as
  a payment.
\<close>

theorem payment_counterexample:
  "balance_of (snd (create runtime0 store0 7 1 (body0 2 (JNum 40) Transfer))) 1 = Some 60
   \<and> balance_of (snd (create runtime0 store0 7 1 (body0 2 (JNum 40) Transfer))) 2 = Some 45
   \<and> map_sum id status (fst (create runtime0 store0 7 1 (body0 2 (JNum 40) Transfer)))
       = Inr Completed
   \<and> map_sum id completedAt (fst (create runtime0 store0 7 1 (body0 2 (JNum 40) Transfer)))
       = Inr (Some 7)
   \<and> balance_of (snd (create runtime0 store0 7 1 (body0 2 (JNum 40) Payment))) 1 = Some 100
   \<and> balance_of (snd (create runtime0 store0 7 1 (body0 2 (JNum 40) Payment))) 2 = Some 5
   \<and> map_sum id status (fst (create runtime0 store0 7 1 (body0 2 (JNum 40) Payment)))
       = Inr Pending
   \<and> map_sum id completedAt (fst (create runtime0 store0 7 1 (body0 2 (JNum 40) Payment)))
       = Inr None"
  by (simp add: create_unfold balance_of_def store0_def body0_def runtime0_def)

subsection \<open>The record saved before the dispatch\<close>




subsection \<open>Cancellation and the life of a transaction\<close>

text \<open>
  Neither route shortens the list of transactions, and \<^verbatim>\<open>/create\<close> touches no
  transaction that existed before the request.
\<close>

lemmas create_steps =
  create_def create_handler_def authenticateToken_def User_findById_def
  User_save_def Transaction_insert_def Transaction_save_def Let_def

lemma create_keeps_old:
  assumes "tid < length (transactions st)"
  shows "tid < length (transactions (snd (create rt st now s b)))
       \<and> transactions (snd (create rt st now s b)) ! tid = transactions st ! tid"
  using assms
  by (auto simp add: create_steps nth_append split: option.splits sum.splits txn_type.splits)

lemma create_new_status:
  assumes "length (transactions st) \<le> tid"
    and "tid < length (transactions (snd (create rt st now s b)))"
  shows "status (transactions (snd (create rt st now s b)) ! tid) \<in> {Pending, Completed}"
  using assms
  by (auto simp add: create_steps nth_append
      split: option.splits sum.splits txn_type.splits if_splits)

lemma cancel_length:
  "length (transactions (snd (cancel st s k))) = length (transactions st)"
  by (auto simp add: cancel_unfold split: option.splits sum.splits if_splits)

lemma cancel_step:
  assumes "tid < length (transactions st)"
  shows "transactions (snd (cancel st s k)) ! tid = transactions st ! tid
       \<or> status (transactions st ! tid) = Pending
         \<and> status (transactions (snd (cancel st s k)) ! tid) = Cancelled"
  using assms
  by (auto simp add: cancel_unfold nth_list_update split: option.splits sum.splits if_splits)

lemma status_of_Some:
  "status_of st tid = Some x \<longleftrightarrow> tid < length (transactions st) \<and> status (transactions st ! tid) = x"
  by (simp add: status_of_def Transaction_findById_def)

lemma exec_terminal:
  assumes "status_of st tid = Some x" and "x \<noteq> Pending"
  shows "status_of (exec rt st r) tid = Some x"
proof (cases r)
  case (Create now s b)
  from assms(1) have "tid < length (transactions st)"
    by (simp add: status_of_Some)
  from create_keeps_old [OF this, of rt now s b] assms(1) Create show ?thesis
    by (simp add: status_of_Some)
next
  case (Cancel s k)
  from assms(1) have "tid < length (transactions st)"
    by (simp add: status_of_Some)
  from cancel_step [OF this, of s k] cancel_length [of st s k] assms Cancel show ?thesis
    by (auto simp add: status_of_Some)
qed

lemma run_terminal:
  "status_of st tid = Some x \<Longrightarrow> x \<noteq> Pending \<Longrightarrow> status_of (run rt st rs) tid = Some x"
  unfolding run_def
  by (induction rs arbitrary: st) (simp_all add: exec_terminal)

lemma exec_cancelled_from_pending:
  assumes "status_of (exec rt st r) tid = Some Cancelled"
    and "status_of st tid \<noteq> Some Cancelled"
  shows "status_of st tid = Some Pending"
proof (cases "tid < length (transactions st)")
  case True
  show ?thesis
  proof (cases r)
    case (Create now s b)
    with create_keeps_old [OF True, of rt now s b] assms True show ?thesis
      by (simp add: status_of_Some)
  next
    case (Cancel s k)
    with cancel_step [OF True, of s k] cancel_length [of st s k] assms True show ?thesis
      by (auto simp add: status_of_Some)
  qed
next
  case False
  show ?thesis
  proof (cases r)
    case (Create now s b)
    with create_new_status [of st tid rt now s b] assms False show ?thesis
      by (auto simp add: status_of_Some)
  next
    case (Cancel s k)
    with cancel_length [of st s k] assms False show ?thesis
      by (simp add: status_of_Some)
  qed
qed

lemma cancel_success_only_pending:
  assumes "fst (cancel st s tid) = Inr t"
  shows "status_of st tid = Some Pending
       \<and> status_of (snd (cancel st s tid)) tid = Some Cancelled"
  using assms
  by (auto simp add: cancel_unfold status_of_def split: option.splits sum.splits if_splits)

lemma cancel_fails_otherwise:
  assumes "status_of st tid \<noteq> Some Pending"
  shows "isl (fst (cancel st s tid)) \<and> snd (cancel st s tid) = st"
  using assms
  by (auto simp add: cancel_unfold status_of_def split: option.splits sum.splits if_splits)

lemma cancel_by_sender:
  assumes "users st s = Some u" and "isActive u"
    and "Transaction_findById st tid = Some t" and "sender t = s" and "status t = Pending"
  shows "cancel st s tid
           = (Inr (t\<lparr>status := Cancelled\<rparr>), Transaction_save st tid (t\<lparr>status := Cancelled\<rparr>))"
  using assms
  by (simp add: cancel_def cancel_handler_def authenticateToken_def User_findById_def Let_def)

text \<open>
  Claim C9. The sender's cancellation of a pending transaction succeeds and sets the
  status to \<^verbatim>\<open>cancelled\<close>; a cancellation that succeeds was of a pending
  transaction; on any other status it fails and the store is as before. Hence over
  every run of requests a transaction whose status is not \<^verbatim>\<open>pending\<close> keeps its
  status, and a request after which a transaction is \<^verbatim>\<open>cancelled\<close> found it pending
  (or already cancelled).
\<close>

theorem cancel_only_pending:
  "(users st s = Some u \<and> isActive u \<and> Transaction_findById st tid = Some t
      \<and> sender t = s \<and> status t = Pending \<longrightarrow>
      cancel st s tid
        = (Inr (t\<lparr>status := Cancelled\<rparr>), Transaction_save st tid (t\<lparr>status := Cancelled\<rparr>)))
   \<and> (fst (cancel st s tid) = Inr t' \<longrightarrow>
      status_of st tid = Some Pending
      \<and> status_of (snd (cancel st s tid)) tid = Some Cancelled)
   \<and> (status_of st tid \<noteq> Some Pending \<longrightarrow>
      isl (fst (cancel st s tid)) \<and> snd (cancel st s tid) = st)
   \<and> (status_of st tid = Some x \<and> x \<noteq> Pending \<longrightarrow> status_of (run rt st rs) tid = Some x)
   \<and> (status_of (exec rt st r) tid = Some Cancelled \<and> status_of st tid \<noteq> Some Cancelled \<longrightarrow>
      status_of st tid = Some Pending)"
  using cancel_by_sender [of st s u tid t] cancel_success_only_pending [of st s tid t']
    cancel_fails_otherwise [of st tid s] run_terminal [of st tid x rt rs]
    exec_cancelled_from_pending [of rt st r tid]
  by blast

text \<open>
  In \<open>store1\<close> user 1 cancels the pending transaction 0; the cancellation of the
  completed transaction 1 fails; transaction 1 is still completed after a run that
  tries to cancel it and creates further transactions.
\<close>

theorem cancel_only_pending_witness:
  "status_of store1 0 = Some Pending
   \<and> fst (cancel store1 1 0) = Inr ((pending_txn runtime0 1 40 (body0 2 (JNum 40) Payment))\<lparr>status := Cancelled\<rparr>)
   \<and> status_of (snd (cancel store1 1 0)) 0 = Some Cancelled
   \<and> status_of store1 1 = Some Completed
   \<and> isl (fst (cancel store1 1 1))
   \<and> snd (cancel store1 1 1) = store1
   \<and> status_of (run runtime0 store1 [Cancel 1 1, Create 9 1 (body0 2 (JNum 5) Deposit), Cancel 1 0]) 1
       = Some Completed
   \<and> status_of (exec runtime0 store1 (Cancel 1 0)) 0 = Some Cancelled"
proof -
  have u: "users store1 1 = Some \<lparr>accountBalance = 90, isActive = True\<rparr>"
    by (simp add: store1_def)
  have t0: "Transaction_findById store1 0 = Some (pending_txn runtime0 1 40 (body0 2 (JNum 40) Payment))"
    by (simp add: Transaction_findById_def store1_def)
  have p: "status_of store1 0 = Some Pending"
    by (simp add: status_of_def t0 pending_txn_def)
  have c: "status_of store1 1 = Some Completed"
    by (simp add: status_of_def Transaction_findById_def store1_def completed_txn_def)
  note thm0 = cancel_only_pending [of store1 1 "\<lparr>accountBalance = 90, isActive = True\<rparr>" 0
      "pending_txn runtime0 1 40 (body0 2 (JNum 40) Payment)" "(pending_txn runtime0 1 40 (body0 2 (JNum 40) Payment))\<lparr>status := Cancelled\<rparr>"
      Pending runtime0 "[]" "Cancel 1 0"]
  note thm1 = cancel_only_pending [of store1 1 "\<lparr>accountBalance = 90, isActive = True\<rparr>" 1
      "completed_txn runtime0 7 1 10 (body0 2 (JNum 10) Transfer)" "completed_txn runtime0 7 1 10 (body0 2 (JNum 10) Transfer)"
      Completed runtime0 "[Cancel 1 1, Create 9 1 (body0 2 (JNum 5) Deposit), Cancel 1 0]" "Cancel 1 1"]
  from thm0 u t0 have a: "cancel store1 1 0
       = (Inr ((pending_txn runtime0 1 40 (body0 2 (JNum 40) Payment))\<lparr>status := Cancelled\<rparr>),
          Transaction_save store1 0 ((pending_txn runtime0 1 40 (body0 2 (JNum 40) Payment))\<lparr>status := Cancelled\<rparr>))"
    by (simp add: pending_txn_def)
  with thm0 have b: "status_of (snd (cancel store1 1 0)) 0 = Some Cancelled"
    by simp
  from thm1 c have d: "isl (fst (cancel store1 1 1))" "snd (cancel store1 1 1) = store1"
    "status_of (run runtime0 store1 [Cancel 1 1, Create 9 1 (body0 2 (JNum 5) Deposit), Cancel 1 0]) 1
       = Some Completed"
    by simp_all
  from a b have e: "status_of (exec runtime0 store1 (Cancel 1 0)) 0 = Some Cancelled"
    by simp
  from p a b c d e show ?thesis
    by simp
qed

section \<open>Properties of the loan routes\<close>

subsection \<open>The interest rate\<close>

text \<open>
  Claim C5. The interest rate derived by the loan application is the tier table:
  personal 10.5 from 50,000 and 12.5 below; home 8.5 from 1,000,000 and 9.5 below;
  business 11.5 from 200,000 and 13.5 below; education 9.5; vehicle 9.0 from 500,000
  and 10.5 below. Each threshold itself belongs to the upper tier.
\<close>

theorem interest_rate_table:
  "apply_interestRate personal a = (if 50000 \<le> a then 10.5 else 12.5)
   \<and> apply_interestRate home a = (if 1000000 \<le> a then 8.5 else 9.5)
   \<and> apply_interestRate business a = (if 200000 \<le> a then 11.5 else 13.5)
   \<and> apply_interestRate education a = 9.5
   \<and> apply_interestRate vehicle a = (if 500000 \<le> a then 9.0 else 10.5)
   \<and> apply_interestRate personal 50000 = 10.5 \<and> apply_interestRate personal 49999 = 12.5
   \<and> apply_interestRate home 1000000 = 8.5 \<and> apply_interestRate home 999999 = 9.5
   \<and> apply_interestRate business 200000 = 11.5 \<and> apply_interestRate business 199999 = 13.5
   \<and> apply_interestRate vehicle 500000 = 9.0 \<and> apply_interestRate vehicle 499999 = 10.5"
  by (simp add: apply_interestRate_def)

subsection \<open>One open loan per user\<close>

lemma Loan_pre_save_keeps:
  "loan_user (Loan_pre_save rt m l) = loan_user l"
  "loan_status (Loan_pre_save rt m l) = loan_status l"
  by (simp_all add: Loan_pre_save_def Let_def)

lemma findOne_open_None: "Loan_findOne_open st s = None \<longleftrightarrow> open_loans st s = []"
  by (auto simp add: Loan_findOne_open_def open_loans_def find_None_iff filter_empty_conv)

lemma duplicate_rejected:
  assumes "users st s = Some u" and "isActive u" and "apply_validation b"
    and "l \<in> set (loans st)" and "loan_user l = s" and "open_status (loan_status l)"
  shows "loan_apply rt st s b = (Inl DuplicateActiveLoan, st)"
proof -
  from assms(4-6) have "Loan_findOne_open st s \<noteq> None"
    by (auto simp add: Loan_findOne_open_def find_None_iff)
  with assms(1-3) show ?thesis
    by (auto simp add: loan_apply_def apply_handler_def authenticateToken_def
        User_findById_def Let_def split: option.splits)
qed

text \<open>
  Whatever \<^verbatim>\<open>save\<close> does with the new document, the store after an application is
  the store before it or has one loan more, of a user who had no open loan.
\<close>

lemma open_loans_bound:
  "length (open_loans (snd (loan_apply rt st s b)) v) \<le> max 1 (length (open_loans st v))"
proof (cases "snd (loan_apply rt st s b) = st")
  case True
  then show ?thesis by simp
next
  case False
  then obtain l where l: "snd (loan_apply rt st s b) = Loan_insert st l" "loan_user l = s"
    and none: "Loan_findOne_open st s = None"
    by (auto simp add: loan_apply_def apply_handler_def Loan_save_def Let_def
        Loan_pre_save_keeps split: sum.splits option.splits if_splits)
  from none have "open_loans st s = []"
    by (simp add: findOne_open_None)
  with l show ?thesis
    by (cases "v = s") (auto simp add: open_loans_def Loan_insert_def)
qed

text \<open>
  In fact the route stores no loan at all: the document it builds lacks the required
  \<^verbatim>\<open>monthlyPayment\<close> and \<^verbatim>\<open>totalAmount\<close>, the validation of \<^verbatim>\<open>save\<close> rejects it before
  the hook could compute them, and the application is answered 500.
\<close>

lemma loan_apply_stores_nothing:
  "snd (loan_apply rt st s b) = st \<and> isl (fst (loan_apply rt st s b))"
  by (simp add: loan_apply_def apply_handler_def Loan_save_def Loan_validate_def Let_def
      split: sum.splits option.splits)

text \<open>
  Claim C8. When the authenticated user already has a loan whose status is
  \<^verbatim>\<open>pending\<close>, \<^verbatim>\<open>approved\<close> or \<^verbatim>\<open>active\<close>, a validated loan application fails with
  \<^verbatim>\<open>DuplicateActiveLoan\<close> and the store is unchanged, so no loan document is created.
  Hence an application never takes any user beyond one open loan: after it, every
  user has at most as many open loans as before, or one.
\<close>

theorem duplicate_loan_rejected:
  "(users st s = Some u \<and> isActive u \<and> apply_validation b
      \<and> l \<in> set (loans st) \<and> loan_user l = s
      \<and> loan_status l \<in> {LoanPending, LoanApproved, LoanActive} \<longrightarrow>
      loan_apply rt st s b = (Inl DuplicateActiveLoan, st))
   \<and> length (open_loans (snd (loan_apply rt st s b)) v) \<le> max 1 (length (open_loans st v))
   \<and> ((\<forall>w. length (open_loans st w) \<le> 1) \<longrightarrow>
        (\<forall>w. length (open_loans (snd (loan_apply rt st s b)) w) \<le> 1))"
proof -
  have "loan_status l \<in> {LoanPending, LoanApproved, LoanActive} \<longleftrightarrow> open_status (loan_status l)"
    by (auto simp add: open_status_def)
  moreover have "length (open_loans (snd (loan_apply rt st s b)) w) \<le> 1"
    if "\<forall>w. length (open_loans st w) \<le> 1" for w
    using open_loans_bound [of rt st s b w] spec [OF that, of w] by linarith
  ultimately show ?thesis
    using duplicate_rejected [of st s u b l rt] open_loans_bound [of rt st s b v]
    by blast
qed

text \<open>
  In \<open>store0\<close> user 2 has a pending loan and applies again; user 1 has none and
  applies.
\<close>

theorem duplicate_loan_rejected_witness:
  "loan_apply runtime0 store0 2 apply_body0 = (Inl DuplicateActiveLoan, store0)
   \<and> length (open_loans store0 2) = 1
   \<and> length (open_loans (snd (loan_apply runtime0 store0 2 apply_body0)) 2) \<le> 1
   \<and> length (open_loans (snd (loan_apply runtime0 store0 1 apply_body0)) 1) \<le> 1"
proof -
  have u: "users store0 2 = Some \<lparr>accountBalance = 5, isActive = True\<rparr>"
    by (simp add: store0_def)
  have v: "apply_validation apply_body0"
    by (simp add: apply_validation_def apply_body0_def)
  have l: "hd (loans store0) \<in> set (loans store0)" "loan_user (hd (loans store0)) = 2"
    "loan_status (hd (loans store0)) = LoanPending"
    by (simp_all add: store0_def)
  have n: "length (open_loans store0 w) \<le> 1" for w
    by (simp add: open_loans_def store0_def)
  have o: "length (open_loans store0 2) = 1"
    by (simp add: open_loans_def store0_def open_status_def)
  from duplicate_loan_rejected [of store0 2 "\<lparr>accountBalance = 5, isActive = True\<rparr>"
      apply_body0 "hd (loans store0)" runtime0 2] u v l
  have a: "loan_apply runtime0 store0 2 apply_body0 = (Inl DuplicateActiveLoan, store0)"
    by simp
  from duplicate_loan_rejected [of store0 1 _ apply_body0 _ runtime0 1] n
  have b: "length (open_loans (snd (loan_apply runtime0 store0 1 apply_body0)) 1) \<le> 1"
    by blast
  from a b n [of 2] o show ?thesis
    by simp
qed

subsection \<open>Amortisation\<close>






subsection \<open>The same response under rounding arithmetic\<close>

text \<open>
  The response above does not depend on the arithmetic being exact. A result \<open>v\<close>
  accurate to twelve digits of an exact value between \<open>lo\<close> and \<open>hi\<close>, both in the
  range of the accuracy, lies between slightly wider bounds.
\<close>

lemma accurate_within:
  fixes v x lo hi lo' hi' :: real
  assumes "in_range x \<longrightarrow> \<bar>v - x\<bar> \<le> \<bar>x\<bar> / 10 ^ 12"
    and "lo \<le> x" and "x \<le> hi" and "1 / 10 ^ 3 \<le> lo" and "hi \<le> 10 ^ 6"
    and "lo' \<le> lo * (1 - 1 / 10 ^ 12)" and "hi * (1 + 1 / 10 ^ 12) \<le> hi'"
  shows "lo' \<le> v \<and> v \<le> hi'"
proof -
  define d :: real where "d = 1 / 10 ^ 12"
  have d: "0 \<le> 1 - d" "0 \<le> 1 + d"
    by (simp_all add: d_def)
  from assms(2,4) have "1 / 10 ^ 3 \<le> x"
    by simp
  then have x: "0 \<le> x"
    by simp
  from \<open>1 / 10 ^ 3 \<le> x\<close> assms(3,5) have "in_range x"
    by (simp add: in_range_def)
  with assms(1) have "\<bar>v - x\<bar> \<le> \<bar>x\<bar> / 10 ^ 12"
    by simp
  moreover from x have "\<bar>x\<bar> / 10 ^ 12 = x * d"
    by (simp add: d_def)
  ultimately have "\<bar>v - x\<bar> \<le> x * d"
    by simp
  then have v: "x - x * d \<le> v" "v \<le> x + x * d"
    by linarith+
  from assms(2) d(1) have "lo * (1 - d) \<le> x * (1 - d)"
    by (rule mult_right_mono)
  moreover from assms(3) d(2) have "x * (1 + d) \<le> hi * (1 + d)"
    by (rule mult_right_mono)
  ultimately have "lo * (1 - d) \<le> x - x * d" "x + x * d \<le> hi * (1 + d)"
    by (simp_all add: algebra_simps)
  with v assms(6,7) show ?thesis
    by (simp add: d_def)
qed

lemma product_bounds:
  fixes x y :: real
  assumes "lx \<le> x \<and> x \<le> hx" and "ly \<le> y \<and> y \<le> hy" and "0 \<le> lx" and "0 \<le> ly"
  shows "lx * ly \<le> x * y" and "x * y \<le> hx * hy"
  using assms by (auto intro!: mult_mono)

lemma quotient_bounds:
  fixes x y :: real
  assumes "lx \<le> x \<and> x \<le> hx" and "ly \<le> y \<and> y \<le> hy" and "0 \<le> lx" and "0 < ly"
  shows "lx / hy \<le> x / y" and "x / y \<le> hx / ly"
  using assms by (auto intro!: frac_le)

text \<open>
  For 1000 at 12 percent over 3 months every accurate runtime rounds the payment to
  34002 cents, the total to 102007 cents and the interest to 2007 cents, and three
  times the payment of the response stays below its total.
\<close>

lemma calculator_accurate:
  assumes "accurate rt"
  shows "calculator rt calculator_body0
           = Inr \<lparr>res_loanAmount = 1000, res_term = 3, res_interestRate = 12,
                  res_monthlyPayment = num_div rt 34002 100,
                  res_totalAmount = num_div rt 102007 100,
                  res_totalInterest = num_div rt 2007 100\<rparr>
       \<and> num_mul rt (num_div rt 34002 100) 3 < num_div rt 102007 100"
proof -
  have A: "in_range (x + y) \<longrightarrow> \<bar>num_add rt x y - (x + y)\<bar> \<le> \<bar>x + y\<bar> / 10 ^ 12" for x y
    using assms by (simp add: accurate_def)
  have S: "in_range (x - y) \<longrightarrow> \<bar>num_sub rt x y - (x - y)\<bar> \<le> \<bar>x - y\<bar> / 10 ^ 12" for x y
    using assms by (simp add: accurate_def)
  have M: "in_range (x * y) \<longrightarrow> \<bar>num_mul rt x y - x * y\<bar> \<le> \<bar>x * y\<bar> / 10 ^ 12" for x y
    using assms by (simp add: accurate_def)
  have D: "in_range (x / y) \<longrightarrow> \<bar>num_div rt x y - x / y\<bar> \<le> \<bar>x / y\<bar> / 10 ^ 12" for x y
    using assms by (simp add: accurate_def)
  have P: "in_range (x ^ 3) \<longrightarrow> \<bar>Math_pow rt x 3 - x ^ 3\<bar> \<le> \<bar>x ^ 3\<bar> / 10 ^ 12" for x
  proof -
    from assms
    have "in_range (x ^ 3) \<longrightarrow> \<bar>Math_pow rt x (real 3) - x ^ 3\<bar> \<le> \<bar>x ^ 3\<bar> / 10 ^ 12"
      unfolding accurate_def by blast
    then show ?thesis
      by simp
  qed
  define r1 where "r1 = num_div rt 12 100"
  define mr where "mr = num_div rt r1 12"
  define base where "base = num_add rt 1 mr"
  define g where "g = Math_pow rt base 3"
  define n1 where "n1 = num_mul rt 1000 mr"
  define n2 where "n2 = num_mul rt n1 g"
  define den where "den = num_sub rt g 1"
  define p where "p = num_div rt n2 den"
  define t where "t = num_mul rt p 3"
  define i where "i = num_sub rt t 1000"
  have r1: "0.1199999999 \<le> r1 \<and> r1 \<le> 0.1200000001"
    unfolding r1_def by (rule accurate_within [OF D [of 12 100], where lo = "12 / 100" and hi = "12 / 100"]) simp_all
  have mr: "0.00999999999 \<le> mr \<and> mr \<le> 0.01000000001"
  proof -
    from r1 have "0.1199999999 / 12 \<le> r1 / 12" "r1 / 12 \<le> 0.1200000001 / 12"
      by simp_all
    then show ?thesis
      unfolding mr_def by (rule accurate_within [OF D]) simp_all
  qed
  have base: "1.0099999999 \<le> base \<and> base \<le> 1.0100000001"
  proof -
    from mr have "1 + 0.00999999999 \<le> 1 + mr" "1 + mr \<le> 1 + 0.01000000001"
      by simp_all
    then show ?thesis
      unfolding base_def by (rule accurate_within [OF A]) simp_all
  qed
  have g: "1.030300999 \<le> g \<and> g \<le> 1.030301001"
  proof -
    from base have "1.0099999999 ^ 3 \<le> base ^ 3" "base ^ 3 \<le> 1.0100000001 ^ 3"
      by (simp_all add: power_mono)
    then show ?thesis
      unfolding g_def by (rule accurate_within [OF P]) (simp_all add: power3_eq_cube)
  qed
  have n1: "9.9999999 \<le> n1 \<and> n1 \<le> 10.0000001"
  proof -
    from mr have "1000 * 0.00999999999 \<le> 1000 * mr" "1000 * mr \<le> 1000 * 0.01000000001"
      by simp_all
    then show ?thesis
      unfolding n1_def by (rule accurate_within [OF M]) simp_all
  qed
  have n2: "10.3030098 \<le> n2 \<and> n2 \<le> 10.3030102"
  proof -
    have "9.9999999 * 1.030300999 \<le> n1 * g" "n1 * g \<le> 10.0000001 * 1.030301001"
      by (rule product_bounds [OF n1 g]; simp)+
    then show ?thesis
      unfolding n2_def by (rule accurate_within [OF M]) simp_all
  qed
  have den: "0.030300998 \<le> den \<and> den \<le> 0.030301002"
  proof -
    from g have "1.030300999 - 1 \<le> g - 1" "g - 1 \<le> 1.030301001 - 1"
      by simp_all
    then show ?thesis
      unfolding den_def by (rule accurate_within [OF S]) simp_all
  qed
  have p: "340.02208 \<le> p \<and> p \<le> 340.02215"
  proof -
    have "10.3030098 / 0.030301002 \<le> n2 / den" "n2 / den \<le> 10.3030102 / 0.030300998"
      by (rule quotient_bounds [OF n2 den]; simp)+
    then show ?thesis
      unfolding p_def by (rule accurate_within [OF D]) simp_all
  qed
  have t: "1020.0662 \<le> t \<and> t \<le> 1020.0665"
  proof -
    from p have "340.02208 * 3 \<le> p * 3" "p * 3 \<le> 340.02215 * 3"
      by simp_all
    then show ?thesis
      unfolding t_def by (rule accurate_within [OF M]) simp_all
  qed
  have i: "20.066 \<le> i \<and> i \<le> 20.067"
  proof -
    from t have "1020.0662 - 1000 \<le> t - 1000" "t - 1000 \<le> 1020.0665 - 1000"
      by simp_all
    then show ?thesis
      unfolding i_def by (rule accurate_within [OF S]) simp_all
  qed
  have p100: "34002.2 \<le> num_mul rt p 100 \<and> num_mul rt p 100 \<le> 34002.3"
  proof -
    from p have "340.02208 * 100 \<le> p * 100" "p * 100 \<le> 340.02215 * 100"
      by simp_all
    then show ?thesis
      by (rule accurate_within [OF M]) simp_all
  qed
  have t100: "102006.6 \<le> num_mul rt t 100 \<and> num_mul rt t 100 \<le> 102006.7"
  proof -
    from t have "1020.0662 * 100 \<le> t * 100" "t * 100 \<le> 1020.0665 * 100"
      by simp_all
    then show ?thesis
      by (rule accurate_within [OF M]) simp_all
  qed
  have i100: "2006.59 \<le> num_mul rt i 100 \<and> num_mul rt i 100 \<le> 2006.71"
  proof -
    from i have "20.066 * 100 \<le> i * 100" "i * 100 \<le> 20.067 * 100"
      by simp_all
    then show ?thesis
      by (rule accurate_within [OF M]) simp_all
  qed
  have rp: "Math_round (num_mul rt p 100) = 34002"
    using p100 by (simp add: Math_round_def floor_eq_iff)
  have rt': "Math_round (num_mul rt t 100) = 102007"
    using t100 by (simp add: Math_round_def floor_eq_iff)
  have ri: "Math_round (num_mul rt i 100) = 2007"
    using i100 by (simp add: Math_round_def floor_eq_iff)
  from mr have pos: "0 < mr"
    by simp
  have amounts: "calculator_amounts rt 1000 3 12 = (p, t, i)"
    using pos
    by (simp add: calculator_amounts_def Let_def r1_def mr_def base_def g_def n1_def n2_def
        den_def p_def t_def i_def)
  have response: "calculator rt calculator_body0
           = Inr \<lparr>res_loanAmount = 1000, res_term = 3, res_interestRate = 12,
                  res_monthlyPayment = num_div rt 34002 100,
                  res_totalAmount = num_div rt 102007 100,
                  res_totalInterest = num_div rt 2007 100\<rparr>"
    by (simp add: calculator_def calculator_validation_def calculator_body0_def amounts
        round2_def rp rt' ri)
  have a: "340.0199 \<le> num_div rt 34002 100 \<and> num_div rt 34002 100 \<le> 340.0201"
    by (rule accurate_within [OF D [of 34002 100], where lo = "34002 / 100" and hi = "34002 / 100"]) simp_all
  have b: "1020.069 \<le> num_div rt 102007 100 \<and> num_div rt 102007 100 \<le> 1020.071"
    by (rule accurate_within [OF D [of 102007 100], where lo = "102007 / 100" and hi = "102007 / 100"]) simp_all
  have c: "1020.059 \<le> num_mul rt (num_div rt 34002 100) 3
         \<and> num_mul rt (num_div rt 34002 100) 3 \<le> 1020.061"
  proof -
    from a have "340.0199 * 3 \<le> num_div rt 34002 100 * 3"
      "num_div rt 34002 100 * 3 \<le> 340.0201 * 3"
      by simp_all
    then show ?thesis
      by (rule accurate_within [OF M]) simp_all
  qed
  from b c have "num_mul rt (num_div rt 34002 100) 3 < num_div rt 102007 100"
    by simp
  with response show ?thesis
    by simp
qed

text \<open>Exact arithmetic is accurate, so the lemma has an instance.\<close>

lemma accurate_runtime0: "accurate runtime0"
  by (simp add: accurate_def runtime0_def)

section \<open>Properties of the card routes and the card model\<close>

subsection \<open>Fee and rewards\<close>

text \<open>
  Claim C7. The annual fee and the rewards programme derived by the card application
  are the fixed table: for classic, gold, platinum, signature and infinite the fee of
  a credit card is 500, 1000, 2500, 5000 and 10000 and that of a debit card 0, 250,
  500, 1000 and 2000; the rewards of a credit card are none, cashback, points, miles
  and miles; a debit card of any category has none.
\<close>

theorem fee_schedule_table:
  "map (apply_annualFee Credit) [Classic, Gold, Platinum, Signature, Infinite]
     = [500, 1000, 2500, 5000, 10000]
   \<and> map (apply_annualFee Debit) [Classic, Gold, Platinum, Signature, Infinite]
     = [0, 250, 500, 1000, 2000]
   \<and> map (apply_rewardsProgram Credit) [Classic, Gold, Platinum, Signature, Infinite]
     = [NoRewards, Cashback, Points, Miles, Miles]
   \<and> apply_rewardsProgram Debit category = NoRewards"
  by (simp add: apply_annualFee_def apply_rewardsProgram_def)

subsection \<open>The generated card number\<close>

lemma append_random_length:
  "length (fold (\<lambda>i cardNumber. cardNumber @ digit_string (rnd i)) xs pre)
     = length pre + length xs"
  by (induction xs arbitrary: pre) (simp_all add: digit_string_def)

lemma append_random_hd:
  "pre \<noteq> [] \<Longrightarrow>
     fold (\<lambda>i cardNumber. cardNumber @ digit_string (rnd i)) xs pre \<noteq> []
     \<and> hd (fold (\<lambda>i cardNumber. cardNumber @ digit_string (rnd i)) xs pre) = hd pre"
  by (induction xs arbitrary: pre) (simp_all add: digit_string_def)

text \<open>
  Whatever the network and the random digits, the generated number has 17
  characters, one more than the 16 that the schema of the model requires, and it
  starts with the digit of the network.
\<close>

lemma generateCardNumber_length: "length (generateCardNumber n rnd) = 17"
proof -
  have "length (network_prefix n) = 1"
    by (simp add: network_prefix_def)
  moreover have "length (digit_string d) = 1" for d
    by (simp add: digit_string_def)
  ultimately show ?thesis
    by (simp add: generateCardNumber_def append_random_def Let_def append_random_length)
qed

lemma generateCardNumber_first:
  "hd (generateCardNumber Visa rnd) = CHR ''4''"
  "hd (generateCardNumber Mastercard rnd) = CHR ''5''"
  "hd (generateCardNumber RuPay rnd) = CHR ''6''"
  "hd (generateCardNumber AmericanExpress rnd) = CHR ''3''"
  by (simp_all add: generateCardNumber_def append_random_def Let_def append_random_hd
      network_prefix_def)

text \<open>
  Claim C3 fails on the code. With the network Visa and every random digit 0 the hook
  produces a number of 17 characters: the prefix, the 15 digits of the first loop
  and the check digit. The check digit is computed over those 16 digits with the
  rightmost one not doubled, so the number does not pass Luhn validation, and with
  every random digit 7 the last digit is not the Luhn check digit of the first 15
  digits either.
\<close>

theorem card_number_has_17_digits:
  "generateCardNumber Visa (\<lambda>i. 0) = ''40000000000000002''
   \<and> length (generateCardNumber Visa (\<lambda>i. 0)) = 17
   \<and> \<not> luhn_valid_spec (digits_of (generateCardNumber Visa (\<lambda>i. 0)))
   \<and> generateCardNumber Visa (\<lambda>i. 7) = ''47777777777777771''
   \<and> luhn_check_digit_spec (digits_of (take 15 (generateCardNumber Visa (\<lambda>i. 7)))) = 8
   \<and> \<not> luhn_valid_spec (digits_of (generateCardNumber Visa (\<lambda>i. 7)))
   \<and> cardNumber (Card_pre_save (\<lambda>i. 0) \<lparr>cardNetwork = Visa, cardNumber = None\<rparr>)
       = Some ''40000000000000002''"
  by code_simp

end
